theory Spec2Isabelle
  imports Complex_Main "HOL-Library.Word"
begin

section \<open>Preliminaries\<close>

text \<open>
  The repository holds two Python programs: \<^verbatim>\<open>face_server.py\<close> (image normalisation and
  cosine-similarity identity lookup) and \<^verbatim>\<open>npy_to_fbx.py\<close> (clean-up of joint trajectories and
  the batch driver that converts them). Their numeric code works on NumPy arrays of floats.
  Throughout, a Python float is modelled by a \<^typ>\<open>real\<close>: rounding error, infinities and
  overflow are outside the model, and the one NaN the code can produce without an exception
  (a division \<open>0/0\<close>, the mean of an empty axis) is written out where it arises, as a value
  for which every comparison is false.

  Every exception the modelled code can raise is a value of \<open>py_error\<close>, and a function that
  may raise returns \<open>py_error + 'a\<close>.
\<close>

datatype py_error = ValueError | ZeroDivisionError | IndexError | KeyError | AttributeError

section \<open>face\_server.py: the matcher\<close>

text \<open>
  \<^verbatim>\<open>
  SIMILARITY_THRESHOLD = 0.5

  def find_match(embedding):
      best_id, best_sim = None, 0.0
      for vid, data in face_db.items():
          sim = np.dot(embedding, data) / (norm(embedding) * norm(data))
          if sim > best_sim:
              best_id, best_sim = vid, sim
      return best_id, best_sim
  \<close>
  \<open>face_db\<close> is a dictionary from visitor identifier to embedding; iterating over its items
  follows insertion order, so the store is an association list in that order.
  \<open>np.dot\<close> of two one-dimensional arrays raises \<open>ValueError\<close> when their lengths differ.
  \<open>norm\<close> is the Euclidean norm. Dividing NumPy floats by zero does not raise: it yields
  NaN here (a zero norm forces a zero dot product), and \<open>NaN > best_sim\<close> is false.
\<close>

type_synonym embedding = "real list"
type_synonym face_db = "(string \<times> embedding) list"

definition SIMILARITY_THRESHOLD :: real where
  "SIMILARITY_THRESHOLD = 1 / 2"

definition np_dot :: "real list \<Rightarrow> real list \<Rightarrow> py_error + real" where
  "np_dot a b =
     (if length a \<noteq> length b then Inl ValueError
      else Inr (sum_list (map2 (\<lambda>x y. x * y) a b)))"

definition np_norm :: "real list \<Rightarrow> real" where
  "np_norm a = sqrt (sum_list (map (\<lambda>x. x * x) a))"

text \<open>The similarity as a float: \<open>None\<close> stands for NaN.\<close>

definition cosine_sim :: "real list \<Rightarrow> real list \<Rightarrow> py_error + real option" where
  "cosine_sim embedding data =
     (case np_dot embedding data of
        Inl e \<Rightarrow> Inl e
      | Inr d \<Rightarrow>
          (let den = np_norm embedding * np_norm data
           in if den = 0 then Inr None else Inr (Some (d / den))))"

text \<open>\<open>sim > best_sim\<close> on floats: false when \<open>sim\<close> is NaN.\<close>

fun float_gt :: "real option \<Rightarrow> real \<Rightarrow> bool" where
  "float_gt None b = False"
| "float_gt (Some a) b = (a > b)"

fun find_match_loop ::
  "embedding \<Rightarrow> face_db \<Rightarrow> string option \<times> real \<Rightarrow> py_error + (string option \<times> real)" where
  "find_match_loop embedding [] best = Inr best"
| "find_match_loop embedding ((vid, data) # rest) (best_id, best_sim) =
     (case cosine_sim embedding data of
        Inl e \<Rightarrow> Inl e
      | Inr sim \<Rightarrow>
          (if float_gt sim best_sim
           then find_match_loop embedding rest (Some vid, the sim)
           else find_match_loop embedding rest (best_id, best_sim)))"

definition find_match :: "embedding \<Rightarrow> face_db \<Rightarrow> py_error + (string option \<times> real)" where
  "find_match embedding db = find_match_loop embedding db (None, 0)"

section \<open>face\_server.py: the verification handler\<close>

text \<open>
  \<^verbatim>\<open>
  faces = face_app.get(img)
  if not faces:
      save_processed_image(img, "verify", tag="noface")
      return jsonify({"is_registered": False, "error": "No face"}), 200
  face = max(faces, key=lambda f: (f.bbox[2]-f.bbox[0]) * (f.bbox[3]-f.bbox[1]))
  vid, sim = find_match(face.embedding)
  tag = f"{vid}_ok" if (sim > SIMILARITY_THRESHOLD) else "unknown"
  save_processed_image(img, "verify", tag=tag)
  if sim > SIMILARITY_THRESHOLD:
      return jsonify({"visitor_id": vid, "is_registered": True, "similarity": float(sim)})
  else:
      return jsonify({"visitor_id": "", "is_registered": False, "similarity": float(sim)})
  \<close>
  The face extractor \<open>face_app.get\<close> is an external model: the handler is modelled from
  the list of faces it returned for the normalised image. An exception inside the handler is
  answered with status 500 (\<open>Failed\<close>). A JSON \<open>null\<close> identifier is \<open>None\<close>. Saving the
  debug image (\<open>save_processed_image\<close>) does not affect the response and is left out.
\<close>

record face =
  bbox :: "real \<times> real \<times> real \<times> real"
  embedding :: "real list"

definition bbox_area :: "face \<Rightarrow> real" where
  "bbox_area f = (case bbox f of (x1, y1, x2, y2) \<Rightarrow> (x2 - x1) * (y2 - y1))"

text \<open>Python's \<open>max(xs, key=k)\<close> keeps the first element whose key is maximal.\<close>

fun max_by :: "('a \<Rightarrow> real) \<Rightarrow> 'a \<Rightarrow> 'a list \<Rightarrow> 'a" where
  "max_by key best [] = best"
| "max_by key best (x # xs) =
     (if key x > key best then max_by key x xs else max_by key best xs)"

datatype response =
    NoFace
  | Match "string option" bool real
  | Failed py_error

definition verify :: "face list \<Rightarrow> face_db \<Rightarrow> response" where
  "verify faces db =
     (case faces of
        [] \<Rightarrow> NoFace
      | f # fs \<Rightarrow>
          (let face = max_by bbox_area f fs in
           case find_match (embedding face) db of
             Inl e \<Rightarrow> Failed e
           | Inr (vid, sim) \<Rightarrow>
               if sim > SIMILARITY_THRESHOLD then Match vid True sim
               else Match (Some '''') False sim))"

section \<open>face\_server.py: decoding the raw image buffer\<close>

text \<open>
  \<^verbatim>\<open>
  def process_image(image_base64, width, height):
      img_bytes = base64.b64decode(image_base64)
      img_np = np.frombuffer(img_bytes, dtype=np.uint8)
      if img_np.size != (width * height * 3):
          eff_size = (img_np.size // 3) * 3
          img_np = img_np[:eff_size]
          h_eff = eff_size // (width * 3)
          img = img_np.reshape((h_eff, width, 3))
      else:
          img = img_np.reshape((height, width, 3))
      img = img[:, :, ::-1] # RGB to BGR
      if IMG_CONFIG["FLIP_VERTICAL"]:
          img = cv2.flip(img, 0)
      h, w = img.shape[:2]
      scale = IMG_CONFIG["TARGET_SIZE"] / min(h, w)
      new_w, new_h = int(w * scale), int(h * scale)
      img = cv2.resize(img, (new_w, new_h))
      ...
  \<close>
  The model takes the decoded bytes and follows the function up to the call of
  \<open>cv2.resize\<close>; resizing, cropping and enhancement are OpenCV's. Width and height are
  pixel counts (\<^typ>\<open>nat\<close>). An image of shape \<open>(h, w, 3)\<close> is a list of \<open>h\<close> rows of \<open>w\<close>
  pixels of 3 bytes.

  \<open>reshape((h, w, 3))\<close> raises \<open>ValueError\<close> unless the array has exactly \<open>h * w * 3\<close>
  elements; \<open>//\<close> and \<open>/\<close> raise \<open>ZeroDivisionError\<close> on a zero divisor. In the handlers
  every exception of \<open>process_image\<close> is caught and answered with an error (status 500).
\<close>

type_synonym byte = "8 word"
type_synonym image = "byte list list list"

definition FLIP_VERTICAL :: bool where
  "FLIP_VERTICAL = False"

definition TARGET_SIZE :: nat where
  "TARGET_SIZE = 640"

definition np_reshape :: "'a list \<Rightarrow> nat \<Rightarrow> nat \<Rightarrow> py_error + 'a list list list" where
  "np_reshape buf h w =
     (if length buf \<noteq> h * w * 3 then Inl ValueError
      else Inr (map (\<lambda>r. map (\<lambda>c. map (\<lambda>k. buf ! ((r * w + c) * 3 + k)) [0..<3]) [0..<w]) [0..<h]))"

definition decode_shape :: "byte list \<Rightarrow> nat \<Rightarrow> nat \<Rightarrow> py_error + image" where
  "decode_shape img_np width height =
     (if length img_np \<noteq> width * height * 3 then
        (let eff_size = (length img_np div 3) * 3;
             img_np' = take eff_size img_np
         in if width * 3 = 0 then Inl ZeroDivisionError
            else (let h_eff = eff_size div (width * 3)
                  in np_reshape img_np' h_eff width))
      else np_reshape img_np height width)"

definition process_image :: "byte list \<Rightarrow> nat \<Rightarrow> nat \<Rightarrow> py_error + image" where
  "process_image img_bytes width height =
     (case decode_shape img_bytes width height of
        Inl e \<Rightarrow> Inl e
      | Inr img0 \<Rightarrow>
          (let img1 = map (map rev) img0;
               img2 = (if FLIP_VERTICAL then rev img1 else img1);
               h = length img2;
               w = width
           in if min h w = 0 then Inl ZeroDivisionError else Inr img2))"

section \<open>npy\_to\_fbx.py: trajectories\<close>

text \<open>
  A trajectory is a NumPy array of shape \<open>(frames, joints, 3)\<close>: a list of frames, each a
  list of joints, each joint its three coordinates. A NumPy array is rectangular: every
  frame has the same number of joints (\<open>is_trajectory\<close>); on such data the element-wise
  operations below (\<open>map2\<close>) never drop an element.
\<close>

type_synonym joint = "real \<times> real \<times> real"
type_synonym pose = "joint list"
type_synonym trajectory = "pose list"

definition is_trajectory :: "nat \<Rightarrow> trajectory \<Rightarrow> bool" where
  "is_trajectory n_joints data = list_all (\<lambda>frame. length frame = n_joints) data"

fun joint_sub :: "joint \<Rightarrow> joint \<Rightarrow> joint" where
  "joint_sub (x, y, z) (x', y', z') = (x - x', y - y', z - z')"

fun joint_add :: "joint \<Rightarrow> joint \<Rightarrow> joint" where
  "joint_add (x, y, z) (x', y', z') = (x + x', y + y', z + z')"

fun joint_scale :: "joint \<Rightarrow> real \<Rightarrow> joint" where
  "joint_scale (x, y, z) s = (x * s, y * s, z * s)"

text \<open>\<open>np.linalg.norm\<close> along the coordinate axis.\<close>

fun joint_norm :: "joint \<Rightarrow> real" where
  "joint_norm (x, y, z) = sqrt (x * x + y * y + z * z)"

subsection \<open>Orientation\<close>

text \<open>
  \<^verbatim>\<open>
  FIX_ROTATION = -90

  def process_motion_data(data):
      processed = data.copy()
      if FIX_ROTATION != 0:
          rad = math.radians(FIX_ROTATION)
          cos_r = math.cos(rad)
          sin_r = math.sin(rad)
          x = processed[:, :, 0].copy()
          z = processed[:, :, 2].copy()
          processed[:, :, 0] = x * cos_r - z * sin_r
          processed[:, :, 2] = x * sin_r + z * cos_r
      return processed
  \<close>
  The angle is a module constant in the source; the model takes it as its first argument,
  in degrees.
\<close>

definition FIX_ROTATION :: real where
  "FIX_ROTATION = - 90"

definition radians :: "real \<Rightarrow> real" where
  "radians deg = deg * (pi / 180)"

definition process_motion_data :: "real \<Rightarrow> trajectory \<Rightarrow> trajectory" where
  "process_motion_data fix_rotation data =
     (if fix_rotation \<noteq> 0 then
        (let rad = radians fix_rotation;
             cos_r = cos rad;
             sin_r = sin rad
         in map (map (\<lambda>(x, y, z). (x * cos_r - z * sin_r, y, x * sin_r + z * cos_r))) data)
      else data)"

subsection \<open>Trimming the idle tail\<close>

text \<open>
  \<^verbatim>\<open>
  STOP_THRESHOLD = 0.002

  def detect_active_frames(data, threshold=0.002):
      total_frames = data.shape[0]
      diff = np.linalg.norm(data[1:] - data[:-1], axis=2)
      motion_energy = np.mean(diff, axis=1)
      real_end = total_frames
      for i in range(total_frames - 2, 0, -1):
          if motion_energy[i] > threshold:
              real_end = i + 2
              break
      return max(10, min(real_end, total_frames))

  # in convert_single_file:
  active_len = detect_active_frames(corrected_data, threshold=STOP_THRESHOLD)
  trimmed_data = corrected_data[:active_len]
  \<close>
  \<open>motion_energy[i]\<close> is the mean over the joints of the distance a joint moves from frame
  \<open>i\<close> to frame \<open>i + 1\<close>. \<open>np.mean\<close> over an empty axis (no joints) is NaN, written
  \<open>None\<close>. The loop visits \<open>i = total_frames - 2, ..., 1\<close>.
\<close>

definition STOP_THRESHOLD :: real where
  "STOP_THRESHOLD = 2 / 1000"

definition np_mean :: "real list \<Rightarrow> real option" where
  "np_mean xs = (if xs = [] then None else Some (sum_list xs / real (length xs)))"

definition motion_energy :: "trajectory \<Rightarrow> real option list" where
  "motion_energy data =
     map2 (\<lambda>nxt cur. np_mean (map2 (\<lambda>p q. joint_norm (joint_sub p q)) nxt cur))
       (tl data) (butlast data)"

fun scan_back :: "real option list \<Rightarrow> real \<Rightarrow> nat \<Rightarrow> nat \<Rightarrow> nat" where
  "scan_back energy threshold real_end 0 = real_end"
| "scan_back energy threshold real_end (Suc i) =
     (if float_gt (energy ! Suc i) threshold then Suc i + 2
      else scan_back energy threshold real_end i)"

definition detect_active_frames :: "trajectory \<Rightarrow> real \<Rightarrow> nat" where
  "detect_active_frames data threshold =
     (let total_frames = length data;
          real_end = scan_back (motion_energy data) threshold total_frames (total_frames - 2)
      in max 10 (min real_end total_frames))"

definition trim_trailing_idle :: "trajectory \<Rightarrow> real \<Rightarrow> trajectory" where
  "trim_trailing_idle corrected_data threshold =
     take (detect_active_frames corrected_data threshold) corrected_data"

subsection \<open>Closing the loop\<close>

text \<open>
  \<^verbatim>\<open>
  LOOP_MIN_FRAMES = 15
  LOOP_MAX_FRAMES = 60

  def append_loop_frames(data):
      start_pose = data[0]
      end_pose = data[-1]
      distances = np.linalg.norm(start_pose - end_pose, axis=1)
      max_dist = np.max(distances)
      transition_len = int(max_dist * 40)
      transition_len = max(LOOP_MIN_FRAMES, min(LOOP_MAX_FRAMES, transition_len))
      t = np.linspace(0, 1, transition_len + 1)[1:]
      smooth_t = t * t * (3 - 2 * t)
      smooth_t = smooth_t[:, np.newaxis, np.newaxis]
      loop_frames = end_pose[np.newaxis, :, :] * (1 - smooth_t) + start_pose[np.newaxis, :, :] * smooth_t
      return np.concatenate([data, loop_frames], axis=0)
  \<close>
  \<open>data[0]\<close> raises \<open>IndexError\<close> on an array with no frame, \<open>np.max\<close> raises
  \<open>ValueError\<close> on an empty array (no joints). \<open>int\<close> truncates a float towards zero.
  \<open>np.linspace(0, 1, n + 1)[1:]\<close> holds \<open>k / n\<close> for \<open>k = 1, ..., n\<close>.
\<close>

definition LOOP_MIN_FRAMES :: int where
  "LOOP_MIN_FRAMES = 15"

definition LOOP_MAX_FRAMES :: int where
  "LOOP_MAX_FRAMES = 60"

definition py_int :: "real \<Rightarrow> int" where
  "py_int x = (if 0 \<le> x then \<lfloor>x\<rfloor> else \<lceil>x\<rceil>)"

text \<open>\<open>np.max\<close> of a one-dimensional array.\<close>

definition np_max :: "real list \<Rightarrow> py_error + real" where
  "np_max xs = (case xs of [] \<Rightarrow> Inl ValueError | x # rest \<Rightarrow> Inr (fold max rest x))"

definition pose_distances :: "pose \<Rightarrow> pose \<Rightarrow> real list" where
  "pose_distances start_pose end_pose =
     map2 (\<lambda>s e. joint_norm (joint_sub s e)) start_pose end_pose"

definition transition_len :: "real \<Rightarrow> nat" where
  "transition_len max_dist =
     nat (max LOOP_MIN_FRAMES (min LOOP_MAX_FRAMES (py_int (max_dist * 40))))"

definition linspace_tail :: "nat \<Rightarrow> real list" where
  "linspace_tail n = map (\<lambda>k. real k / real n) [1..<Suc n]"

definition smoothstep :: "real \<Rightarrow> real" where
  "smoothstep t = t * t * (3 - 2 * t)"

definition blend :: "pose \<Rightarrow> pose \<Rightarrow> real \<Rightarrow> pose" where
  "blend end_pose start_pose s =
     map2 (\<lambda>e st. joint_add (joint_scale e (1 - s)) (joint_scale st s)) end_pose start_pose"

definition loop_frames :: "pose \<Rightarrow> pose \<Rightarrow> nat \<Rightarrow> pose list" where
  "loop_frames start_pose end_pose n =
     map (\<lambda>t. blend end_pose start_pose (smoothstep t)) (linspace_tail n)"

definition append_loop_frames :: "trajectory \<Rightarrow> py_error + trajectory" where
  "append_loop_frames data =
     (if data = [] then Inl IndexError
      else (let start_pose = hd data;
                end_pose = last data
            in case np_max (pose_distances start_pose end_pose) of
                 Inl e \<Rightarrow> Inl e
               | Inr max_dist \<Rightarrow>
                   Inr (data @ loop_frames start_pose end_pose (transition_len max_dist))))"

text \<open>
  The transition length as the specification words it, \<open>round(maxDist * 40)\<close> clamped to
  \<open>[15, 60]\<close>, for comparison with \<open>transition_len\<close>.
\<close>

definition transition_len_spec :: "real \<Rightarrow> nat" where
  "transition_len_spec max_dist = nat (max 15 (min 60 (round (max_dist * 40))))"

subsection \<open>An example input\<close>

text \<open>
  A trajectory of 100 frames with one joint, which moves one unit per frame along the
  x axis up to frame 41 and then rests.
\<close>

definition walk_then_rest :: trajectory where
  "walk_then_rest = map (\<lambda>i. [(real (min i 41), 0, 0)]) [0..<100]"

section \<open>npy\_to\_fbx.py: the batch driver\<close>




















subsection \<open>An example manifest\<close>



section \<open>Properties of the matcher\<close>

lemma find_match_loop_keeps:
  "\<forall>(vid, data) \<in> set db. \<exists>s. cosine_sim q data = Inr s \<and> \<not> float_gt s (snd best)
   \<Longrightarrow> find_match_loop q db best = Inr best"
proof (induction db)
  case Nil
  show ?case by simp
next
  case (Cons p db)
  obtain vid data where p: "p = (vid, data)" by (cases p)
  obtain bi bs where b: "best = (bi, bs)" by (cases best)
  from Cons.prems p obtain s where s: "cosine_sim q data = Inr s" "\<not> float_gt s (snd best)"
    by auto
  from Cons.prems have "\<forall>(vid, data) \<in> set db. \<exists>s. cosine_sim q data = Inr s \<and> \<not> float_gt s (snd best)"
    by simp
  then have "find_match_loop q db best = Inr best" by (rule Cons.IH)
  with s p b show ?case by simp
qed

lemma find_match_loop_sign:
  "find_match_loop q db (bi, bs) = Inr (ri, rs) \<Longrightarrow> 0 \<le> bs \<Longrightarrow> (bi = None \<longrightarrow> bs = 0) \<Longrightarrow> (bi \<noteq> None \<longrightarrow> 0 < bs)
   \<Longrightarrow> 0 \<le> rs \<and> (ri = None \<longrightarrow> rs = 0) \<and> (ri \<noteq> None \<longrightarrow> 0 < rs)"
proof (induction db arbitrary: bi bs)
  case Nil
  then show ?case by simp
next
  case (Cons p db)
  obtain vid data where p: "p = (vid, data)" by (cases p)
  from Cons.prems(1) p obtain sim where sim: "cosine_sim q data = Inr sim"
    by (cases "cosine_sim q data") auto
  show ?case
  proof (cases "float_gt sim bs")
    case True
    then obtain s where s: "sim = Some s" "bs < s" by (cases sim) auto
    from Cons.prems(1) p sim True s have "find_match_loop q db (Some vid, s) = Inr (ri, rs)"
      by simp
    moreover from s Cons.prems(2) have "0 < s" by simp
    ultimately show ?thesis using Cons.IH [of "Some vid" s] by simp
  next
    case False
    with Cons.prems(1) p sim have "find_match_loop q db (bi, bs) = Inr (ri, rs)" by simp
    then show ?thesis using Cons.IH [of bi bs] Cons.prems(2,3,4) by blast
  qed
qed

text \<open>
  Claim C2. The best score starts at 0.0. Hence, for every store and query: on an empty
  store \<open>find_match\<close> returns \<open>(None, 0.0)\<close>; when every stored candidate has a negative
  cosine similarity to the query it returns \<open>(None, 0.0)\<close> and not the best negative score;
  and whatever it returns, the reported score is never negative (it is positive exactly when
  an identifier is reported).
\<close>

theorem find_match_initial_score:
  "find_match q [] = Inr (None, 0)
   \<and> ((\<forall>(vid, data) \<in> set db. \<exists>s. cosine_sim q data = Inr (Some s) \<and> s < 0)
        \<longrightarrow> find_match q db = Inr (None, 0))
   \<and> (find_match q db = Inr (best_id, best_sim)
        \<longrightarrow> 0 \<le> best_sim \<and> (best_id = None \<longrightarrow> best_sim = 0) \<and> (best_id \<noteq> None \<longrightarrow> 0 < best_sim))"
proof (intro conjI impI)
  show "find_match q [] = Inr (None, 0)" by (simp add: find_match_def)
next
  assume neg: "\<forall>(vid, data) \<in> set db. \<exists>s. cosine_sim q data = Inr (Some s) \<and> s < 0"
  have "\<forall>(vid, data) \<in> set db. \<exists>s. cosine_sim q data = Inr s \<and> \<not> float_gt s (snd (None :: string option, 0 :: real))"
  proof (clarify)
    fix vid data assume "(vid, data) \<in> set db"
    with neg obtain s where "cosine_sim q data = Inr (Some s)" "s < 0" by auto
    then show "\<exists>s. cosine_sim q data = Inr s \<and> \<not> float_gt s (snd (None :: string option, 0 :: real))"
      by (intro exI [of _ "Some s"]) simp
  qed
  then show "find_match q db = Inr (None, 0)"
    unfolding find_match_def by (rule find_match_loop_keeps)
next
  assume r: "find_match q db = Inr (best_id, best_sim)"
  then have "find_match_loop q db (None, 0) = Inr (best_id, best_sim)" by (simp add: find_match_def)
  from find_match_loop_sign [OF this] 
  have *: "0 \<le> best_sim \<and> (best_id = None \<longrightarrow> best_sim = 0) \<and> (best_id \<noteq> None \<longrightarrow> 0 < best_sim)" by simp
  from * show "0 \<le> best_sim" by simp
  from * show "best_id = None \<Longrightarrow> best_sim = 0" by simp
  from * show "best_id \<noteq> None \<Longrightarrow> 0 < best_sim" by simp
qed

theorem find_match_initial_score_witness:
  "cosine_sim [1] [-1] = Inr (Some (-1)) \<and> (-1 :: real) < 0
   \<and> find_match [1] [(''visitor_a'', [-1])] = Inr (None, 0)
   \<and> find_match [1] [(''visitor_b'', [1])] = Inr (Some ''visitor_b'', 1)
   \<and> (0 :: real) < 1"
proof -
  have c: "cosine_sim [1] [-1] = Inr (Some (-1))"
    by (simp add: cosine_sim_def np_dot_def np_norm_def)
  then have h: "\<forall>(vid, data) \<in> set [(''visitor_a'', [-1 :: real])].
      \<exists>s. cosine_sim [1] data = Inr (Some s) \<and> s < 0"
    by simp
  from find_match_initial_score [of "[1]" "[(''visitor_a'', [-1])]"] h
  have a: "find_match [1] [(''visitor_a'', [-1])] = Inr (None, 0)" by blast
  have "cosine_sim [1] [1] = Inr (Some 1)"
    by (simp add: cosine_sim_def np_dot_def np_norm_def)
  then have b: "find_match [1] [(''visitor_b'', [1])] = Inr (Some ''visitor_b'', 1)"
    by (simp add: find_match_def)
  from find_match_initial_score [of "[1]" "[(''visitor_b'', [1])]" "Some ''visitor_b''" 1] b
  have "(0 :: real) < 1" by blast
  with a b c show ?thesis by simp
qed

section \<open>Properties of the verification handler\<close>

text \<open>
  Claim C10. For every verify request whose best-match similarity equals the threshold 0.5
  exactly, the response reports \<open>is_registered = false\<close> with an empty identifier: the
  comparison with the threshold is strict.
\<close>

theorem verify_threshold_strict:
  assumes "find_match (embedding (max_by bbox_area f fs)) db = Inr (vid, sim)"
    and "sim = SIMILARITY_THRESHOLD"
  shows "SIMILARITY_THRESHOLD = 1 / 2 \<and> verify (f # fs) db = Match (Some '''') False sim"
  using assms by (simp add: verify_def SIMILARITY_THRESHOLD_def)

theorem verify_threshold_strict_witness:
  "find_match [1, 1, 1, 1] [(''visitor_a'', [1, 0, 0, 0])] = Inr (Some ''visitor_a'', 1 / 2)
   \<and> verify [\<lparr>bbox = (0, 0, 1, 1), embedding = [1, 1, 1, 1]\<rparr>] [(''visitor_a'', [1, 0, 0, 0])]
       = Match (Some '''') False (1 / 2)"
proof -
  have c: "cosine_sim [1, 1, 1, 1] [1, 0, 0, 0] = Inr (Some (1 / 2))"
    by (simp add: cosine_sim_def np_dot_def np_norm_def)
  then have m: "find_match [1, 1, 1, 1] [(''visitor_a'', [1, 0, 0, 0])] = Inr (Some ''visitor_a'', 1 / 2)"
    by (simp add: find_match_def)
  then have m': "find_match (embedding (max_by bbox_area
      \<lparr>bbox = (0, 0, 1, 1), embedding = [1, 1, 1, 1]\<rparr> [])) [(''visitor_a'', [1, 0, 0, 0])]
      = Inr (Some ''visitor_a'', 1 / 2)"
    by simp
  have t: "(1 / 2 :: real) = SIMILARITY_THRESHOLD" by (simp add: SIMILARITY_THRESHOLD_def)
  have "verify [\<lparr>bbox = (0, 0, 1, 1), embedding = [1, 1, 1, 1]\<rparr>] [(''visitor_a'', [1, 0, 0, 0])]
      = Match (Some '''') False (1 / 2)"
    using verify_threshold_strict [OF m' t] by (rule conjunct2)
  with m show ?thesis by (rule conjI)
qed

text \<open>
  The two sides of the comparison: a similarity above the threshold is answered as
  registered with the matched identifier, one at or below it as unknown.
\<close>

lemma verify_above_threshold:
  assumes "find_match (embedding (max_by bbox_area f fs)) db = Inr (vid, sim)"
    and "SIMILARITY_THRESHOLD < sim"
  shows "verify (f # fs) db = Match vid True sim"
  using assms by (simp add: verify_def)

lemma verify_below_threshold:
  assumes "find_match (embedding (max_by bbox_area f fs)) db = Inr (vid, sim)"
    and "sim \<le> SIMILARITY_THRESHOLD"
  shows "verify (f # fs) db = Match (Some '''') False sim"
  using assms by (simp add: verify_def)

section \<open>Behaviour of the image decoder on a buffer of the wrong length\<close>

text \<open>
  Claim C1 says that a buffer whose length is not \<open>width * height * 3\<close> is always recovered:
  truncated to whole rows and processed, never an error. The fallback branch truncates to
  whole pixels only (\<open>(size // 3) * 3\<close>) and then reshapes to \<open>h_eff = eff_size // (width * 3)\<close>
  rows. For 10 bytes at width 2: \<open>eff_size = 9\<close>, \<open>h_eff = 1\<close>, and reshaping 9 bytes to
  \<open>(1, 2, 3)\<close> raises \<open>ValueError\<close>, which the handlers report as an error.
\<close>

theorem process_image_unaligned_raises:
  "process_image (replicate 10 0) 2 2 = Inl ValueError"
  by (simp add: process_image_def decode_shape_def np_reshape_def)

text \<open>
  Buffers shorter than one row fare no better: 5 bytes at width 2 give \<open>h_eff = 0\<close> and a
  \<open>ValueError\<close>; an empty buffer reshapes to \<open>(0, 2, 3)\<close> and the scale
  \<open>TARGET_SIZE / min(h, w)\<close> divides by zero.
\<close>

lemma process_image_undersized_raises:
  "process_image (replicate 5 0) 2 2 = Inl ValueError \<and> process_image [] 2 2 = Inl ZeroDivisionError"
  by (simp add: process_image_def decode_shape_def np_reshape_def FLIP_VERTICAL_def)

text \<open>
  In general the fallback raises whenever the buffer, cut to whole pixels, is not a whole
  number of rows, and succeeds (with \<open>len // (3 * width)\<close> rows) when it is at least one
  whole row and nothing but whole rows.
\<close>

lemma process_image_partial_row_raises:
  assumes "0 < width" and "length buf \<noteq> width * height * 3"
    and "\<not> (width * 3) dvd ((length buf div 3) * 3)"
  shows "process_image buf width height = Inl ValueError"
proof -
  let ?eff = "(length buf div 3) * 3"
  have l: "length (take ?eff buf) = ?eff" by simp
  from assms(3) have "?eff \<noteq> (?eff div (width * 3)) * width * 3"
    by (metis dvd_triv_right mult.assoc)
  with l assms(1,2) show ?thesis
    by (simp add: process_image_def decode_shape_def np_reshape_def Let_def)
qed

lemma process_image_whole_rows:
  assumes "0 < width" and "length buf \<noteq> width * height * 3"
    and "(width * 3) dvd ((length buf div 3) * 3)" and "width * 3 \<le> length buf"
  shows "\<exists>img. process_image buf width height = Inr img
           \<and> length img = length buf div (width * 3)"
proof -
  let ?eff = "(length buf div 3) * 3"
  have l: "length (take ?eff buf) = ?eff" by simp
  from assms(3) have e: "?eff = (?eff div (width * 3)) * width * 3"
    by (metis dvd_div_mult_self mult.assoc)
  have d: "?eff div (width * 3) = length buf div (width * 3)"
    by (metis div_mult2_eq div_mult_self_is_m mult.commute zero_less_numeral)
  from assms(1,4) have "0 < length buf div (width * 3)"
    by (simp add: div_greater_zero_iff)
  with l e d assms(1,2) show ?thesis
    by (simp add: process_image_def decode_shape_def np_reshape_def Let_def FLIP_VERTICAL_def)
qed

section \<open>Properties of the loop closer\<close>

lemma np_max_Max:
  "xs \<noteq> [] \<Longrightarrow> np_max xs = Inr (Max (set xs))"
  by (cases xs) (simp_all add: np_max_def Max.set_eq_fold [symmetric])

lemma joint_norm_nonneg: "0 \<le> joint_norm p"
  by (cases p) simp

lemma pose_distances_nonneg: "d \<in> set (pose_distances a b) \<Longrightarrow> 0 \<le> d"
  by (auto simp: pose_distances_def joint_norm_nonneg)

lemma length_pose_distances: "length (pose_distances a b) = min (length a) (length b)"
  by (simp add: pose_distances_def)

lemma transition_len_floor:
  "0 \<le> max_dist \<Longrightarrow> int (transition_len max_dist) = max 15 (min 60 \<lfloor>max_dist * 40\<rfloor>)"
  by (simp add: transition_len_def py_int_def LOOP_MIN_FRAMES_def LOOP_MAX_FRAMES_def)

lemma transition_len_bounds: "15 \<le> transition_len m \<and> transition_len m \<le> 60"
  unfolding transition_len_def LOOP_MIN_FRAMES_def LOOP_MAX_FRAMES_def by linarith

lemma length_loop_frames: "length (loop_frames s e n) = n"
  by (simp add: loop_frames_def linspace_tail_def)

lemma is_trajectory_hd_last:
  assumes "data \<noteq> []" "is_trajectory n data"
  shows "length (hd data) = n" "length (last data) = n"
  using assms by (auto simp: is_trajectory_def list_all_iff)

lemma dist_along_x: "joint_norm (joint_sub (0, 0, 0) (x, 0, 0)) = \<bar>x\<bar>"
  by simp

text \<open>
  Claim C3, as stated, takes the transition length to be \<open>round(maxDist * 40)\<close> clamped to
  \<open>[15, 60]\<close>. The code truncates instead: for a joint that ends 0.39 away from where it
  started, \<open>maxDist * 40 = 15.6\<close>, the code appends \<open>int(15.6) = 15\<close> frames (2 frames become
  17), where rounding gives 16 (18 frames).
\<close>

theorem append_loop_frames_round_counterexample:
  "np_max (pose_distances (hd [[(0, 0, 0)], [(39 / 100, 0, 0)]]) (last [[(0, 0, 0)], [(39 / 100, 0, 0)]]))
      = Inr (39 / 100)
   \<and> map_sum id length (append_loop_frames [[(0, 0, 0)], [(39 / 100, 0, 0)]]) = Inr 17
   \<and> length [[(0 :: real, 0 :: real, 0 :: real)], [(39 / 100, 0, 0)]] + transition_len_spec (39 / 100) = 18
   \<and> map_sum id length (append_loop_frames [[(0, 0, 0)], [(39 / 100, 0, 0)]])
      \<noteq> Inr (length [[(0 :: real, 0 :: real, 0 :: real)], [(39 / 100, 0, 0)]]
           + transition_len_spec (39 / 100))"
proof -
  have "joint_norm (joint_sub (0, 0, 0) (39 / 100, 0, 0)) = 39 / 100"
    by (simp only: dist_along_x abs_of_nonneg)
  then have m: "np_max (pose_distances [(0, 0, 0)] [(39 / 100, 0, 0)]) = Inr (39 / 100)"
    by (simp add: np_max_def pose_distances_def del: joint_norm.simps joint_sub.simps)
  have t: "transition_len (39 / 100) = 15"
    by (simp add: transition_len_def py_int_def LOOP_MIN_FRAMES_def LOOP_MAX_FRAMES_def)
  have s: "transition_len_spec (39 / 100) = 16"
    by (simp add: transition_len_spec_def round_def)
  from m t s show ?thesis
    by (simp add: append_loop_frames_def length_loop_frames Let_def)
qed

text \<open>
  Claim C3, amended. For every non-empty trajectory (with at least one joint)
  \<open>append_loop_frames\<close> succeeds and appends exactly \<open>transition_len\<close> frames, where
  \<open>transition_len\<close> is \<open>maxDist * 40\<close> truncated to an integer (its floor, as \<open>maxDist\<close> is not
  negative) and clamped to \<open>[15, 60]\<close>, and \<open>maxDist\<close> is the maximum over the joints of the
  distance between the joint's position in the first and in the last frame.
\<close>

theorem append_loop_frames_length:
  assumes "data \<noteq> []" and "is_trajectory n_joints data" and "0 < n_joints"
  shows "\<exists>max_dist out.
      np_max (pose_distances (hd data) (last data)) = Inr max_dist
    \<and> max_dist = Max (set (pose_distances (hd data) (last data)))
    \<and> append_loop_frames data = Inr out
    \<and> length out = length data + transition_len max_dist
    \<and> int (transition_len max_dist) = max 15 (min 60 \<lfloor>max_dist * 40\<rfloor>)"
proof -
  let ?ds = "pose_distances (hd data) (last data)"
  let ?m = "Max (set ?ds)"
  from assms have ne: "?ds \<noteq> []"
    using length_pose_distances [of "hd data" "last data"] is_trajectory_hd_last [OF assms(1,2)]
    by auto
  then have m: "np_max ?ds = Inr ?m" by (rule np_max_Max)
  from ne have "?m \<in> set ?ds" by simp
  then have "0 \<le> ?m" by (rule pose_distances_nonneg)
  then have t: "int (transition_len ?m) = max 15 (min 60 \<lfloor>?m * 40\<rfloor>)"
    by (rule transition_len_floor)
  from assms(1) m have a: "append_loop_frames data =
      Inr (data @ loop_frames (hd data) (last data) (transition_len ?m))"
    by (simp add: append_loop_frames_def Let_def)
  have "length (data @ loop_frames (hd data) (last data) (transition_len ?m)) =
      length data + transition_len ?m"
    by (simp add: length_loop_frames)
  with m a t show ?thesis by blast
qed

theorem append_loop_frames_length_witness:
  "[[(0, 0, 0)], [(39 / 100, 0, 0)]] \<noteq> ([] :: trajectory)
   \<and> is_trajectory 1 [[(0, 0, 0)], [(39 / 100, 0, 0)]]
   \<and> (\<exists>max_dist out.
        np_max (pose_distances [(0, 0, 0)] [(39 / 100, 0, 0)]) = Inr max_dist
      \<and> append_loop_frames [[(0, 0, 0)], [(39 / 100, 0, 0)]] = Inr out
      \<and> length out = 2 + transition_len max_dist
      \<and> int (transition_len max_dist) = max 15 (min 60 \<lfloor>max_dist * 40\<rfloor>))"
proof -
  have t: "is_trajectory 1 [[(0, 0, 0)], [(39 / 100, 0, 0)]]"
    by (simp add: is_trajectory_def)
  from append_loop_frames_length [OF _ t] t show ?thesis
    by simp
qed

lemma smoothstep_pos: "0 < t \<Longrightarrow> t \<le> 1 \<Longrightarrow> 0 < smoothstep t"
  by (simp add: smoothstep_def)

lemma smoothstep_one: "smoothstep 1 = 1"
  by (simp add: smoothstep_def)

lemma hd_linspace_tail: "0 < n \<Longrightarrow> hd (linspace_tail n) = 1 / real n"
  by (simp add: linspace_tail_def upt_conv_Cons del: upt_Suc)

lemma last_linspace_tail: "0 < n \<Longrightarrow> last (linspace_tail n) = 1"
  by (simp add: linspace_tail_def last_map)

lemma linspace_tail_nonempty: "0 < n \<Longrightarrow> linspace_tail n \<noteq> []"
  by (simp add: linspace_tail_def)

lemma blend_one: "length e = length st \<Longrightarrow> blend e st 1 = st"
  unfolding blend_def by (induction e st rule: list_induct2) auto

lemma joint_blend_eq_iff:
  assumes "s \<noteq> 0"
  shows "joint_add (joint_scale e (1 - s)) (joint_scale st s) = e \<longleftrightarrow> st = e"
proof -
  have a: "x * (1 - s) + y * s = x \<longleftrightarrow> y = x" for x y :: real
  proof -
    have "x * (1 - s) + y * s - x = (y - x) * s" by (simp add: algebra_simps)
    with assms show ?thesis
      by (metis add_diff_cancel_left' diff_add_cancel mult_eq_0_iff right_minus_eq)
  qed
  show ?thesis by (cases e, cases st) (auto simp: a)
qed

lemma blend_eq_end_iff:
  "length e = length st \<Longrightarrow> s \<noteq> 0 \<Longrightarrow> blend e st s = e \<longleftrightarrow> st = e"
  unfolding blend_def
  by (induction e st rule: list_induct2) (auto simp: joint_blend_eq_iff)

text \<open>
  Claim C6, as stated, says that the first appended frame always differs from the last
  original frame. It does not when the trajectory already ends in its start pose: every
  appended frame is then that pose.
\<close>

theorem loop_frames_first_counterexample:
  "append_loop_frames [[(0, 0, 0)], [(1, 0, 0)], [(0, 0, 0)]]
     = Inr ([[(0, 0, 0)], [(1, 0, 0)], [(0, 0, 0)]] @ loop_frames [(0, 0, 0)] [(0, 0, 0)] 15)
   \<and> hd (loop_frames [(0, 0, 0)] [(0, 0, 0)] 15) = last [[(0, 0, 0)], [(1, 0, 0)], [(0, 0, 0)]]"
proof -
  have m: "np_max (pose_distances [(0, 0, 0)] [(0, 0, 0)]) = Inr 0"
    by (simp add: np_max_def pose_distances_def)
  have t: "transition_len 0 = 15"
    by (simp add: transition_len_def py_int_def LOOP_MIN_FRAMES_def LOOP_MAX_FRAMES_def)
  have h: "hd (loop_frames [(0, 0, 0)] [(0, 0, 0)] 15) = [(0, 0, 0)]"
    by (simp add: loop_frames_def hd_map linspace_tail_nonempty blend_def)
  from m t h show ?thesis
    by (simp add: append_loop_frames_def Let_def)
qed

text \<open>
  Claim C6, amended. For every non-empty trajectory (with at least one joint) the appended
  segment is not empty; the smoothstep weight of its first frame is positive and that of its
  last frame is 1; the last appended frame is the start pose; and the first appended frame
  equals the last original frame exactly when the start pose equals the end pose (so it
  differs whenever the two poses differ).
\<close>

theorem loop_frames_endpoints:
  assumes "data \<noteq> []" and "is_trajectory n_joints data" and "0 < n_joints"
  shows "\<exists>frames.
      append_loop_frames data = Inr (data @ frames)
    \<and> frames \<noteq> []
    \<and> 0 < smoothstep (hd (linspace_tail (length frames)))
    \<and> smoothstep (last (linspace_tail (length frames))) = 1
    \<and> hd frames = blend (last data) (hd data) (smoothstep (hd (linspace_tail (length frames))))
    \<and> last frames = blend (last data) (hd data) (smoothstep (last (linspace_tail (length frames))))
    \<and> last frames = hd data
    \<and> (hd frames = last data \<longleftrightarrow> hd data = last data)"
proof -
  let ?ds = "pose_distances (hd data) (last data)"
  let ?n = "transition_len (Max (set ?ds))"
  let ?fs = "loop_frames (hd data) (last data) ?n"
  note len = is_trajectory_hd_last [OF assms(1,2)]
  from len assms(3) have "?ds \<noteq> []"
    using length_pose_distances [of "hd data" "last data"] by auto
  then have "np_max ?ds = Inr (Max (set ?ds))" by (rule np_max_Max)
  with assms(1) have a: "append_loop_frames data = Inr (data @ ?fs)"
    by (simp add: append_loop_frames_def Let_def)
  have n: "0 < ?n" using transition_len_bounds [of "Max (set ?ds)"] by simp
  have l: "length ?fs = ?n" by (rule length_loop_frames)
  from n l have ne: "?fs \<noteq> []" by auto
  from n have t1: "0 < hd (linspace_tail ?n)" "hd (linspace_tail ?n) \<le> 1"
    by (simp_all add: hd_linspace_tail)
  then have s1: "0 < smoothstep (hd (linspace_tail ?n))" by (rule smoothstep_pos)
  from n have s2: "smoothstep (last (linspace_tail ?n)) = 1"
    by (simp add: last_linspace_tail smoothstep_one)
  from n have h: "hd ?fs = blend (last data) (hd data) (smoothstep (hd (linspace_tail ?n)))"
    by (simp add: loop_frames_def hd_map linspace_tail_nonempty)
  from n have la: "last ?fs = blend (last data) (hd data) (smoothstep (last (linspace_tail ?n)))"
    by (simp add: loop_frames_def last_map linspace_tail_nonempty)
  from la s2 len have la': "last ?fs = hd data" by (simp add: blend_one)
  from s1 len have "blend (last data) (hd data) (smoothstep (hd (linspace_tail ?n))) = last data
      \<longleftrightarrow> hd data = last data"
    by (intro blend_eq_end_iff) simp_all
  with h have i: "hd ?fs = last data \<longleftrightarrow> hd data = last data" by simp
  from a ne s1 s2 h la la' i l show ?thesis
    by (intro exI [of _ ?fs]) simp
qed

theorem loop_frames_endpoints_witness:
  "[[(0, 0, 0)], [(1, 0, 0)]] \<noteq> ([] :: trajectory)
   \<and> is_trajectory 1 [[(0, 0, 0)], [(1, 0, 0)]]
   \<and> (\<exists>frames.
        append_loop_frames [[(0, 0, 0)], [(1, 0, 0)]] = Inr ([[(0, 0, 0)], [(1, 0, 0)]] @ frames)
      \<and> frames \<noteq> []
      \<and> last frames = [(0, 0, 0)]
      \<and> hd frames \<noteq> [(1, 0, 0)])"
proof -
  have t: "is_trajectory 1 [[(0, 0, 0)], [(1, 0, 0)]]"
    by (simp add: is_trajectory_def)
  from loop_frames_endpoints [OF _ t] obtain frames where
    "append_loop_frames [[(0, 0, 0)], [(1, 0, 0)]] = Inr ([[(0, 0, 0)], [(1, 0, 0)]] @ frames)"
    "frames \<noteq> []" "last frames = [(0, 0, 0)]" "hd frames \<noteq> [(1, 0, 0)]"
    by auto
  with t show ?thesis by auto
qed

text \<open>
  When the start pose and the end pose coincide, every appended frame is that pose.
\<close>

lemma blend_same: "blend p p s = p"
proof -
  have a: "x * (1 - s) + x * s = x" for x :: real by (simp add: algebra_simps)
  have "joint_add (joint_scale j (1 - s)) (joint_scale j s) = j" for j
    by (cases j) (simp add: a)
  then show ?thesis
    unfolding blend_def by (induction p) simp_all
qed

lemma loop_frames_closed_pose: "loop_frames p p n = replicate n p"
  by (simp add: loop_frames_def linspace_tail_def blend_same map_replicate_const del: upt_Suc)

text \<open>The original frames are kept, in order, before the appended ones.\<close>

lemma append_loop_frames_keeps_input:
  "append_loop_frames data = Inr out \<Longrightarrow> take (length data) out = data"
  by (auto simp: append_loop_frames_def Let_def split: if_splits sum.splits)

section \<open>Properties of the activity trimmer\<close>

text \<open>
  Claim C4, as stated (the trimmed trajectory has at least 10 frames and at most the original
  number), fails on an input shorter than 10 frames: \<open>detect_active_frames\<close> answers 10,
  and the slice \<open>corrected_data[:10]\<close> keeps the 3 frames there are.
\<close>

theorem trim_short_counterexample:
  "\<not> (10 \<le> length (trim_trailing_idle [[(0, 0, 0)], [(0, 0, 0)], [(0, 0, 0)]] STOP_THRESHOLD)
      \<and> length (trim_trailing_idle [[(0, 0, 0)], [(0, 0, 0)], [(0, 0, 0)]] STOP_THRESHOLD)
          \<le> length [[(0 :: real, 0 :: real, 0 :: real)], [(0, 0, 0)], [(0, 0, 0)]])"
  by (simp add: trim_trailing_idle_def)

text \<open>
  Claim C4, amended. For every trajectory and threshold the trimmed trajectory has at most the
  original number of frames; it has at least 10 frames whenever the input has at least 10; an
  input with fewer than 10 frames is returned unchanged.
\<close>

theorem trim_length_bounds:
  "length (trim_trailing_idle data threshold) \<le> length data
   \<and> (10 \<le> length data \<longrightarrow> 10 \<le> length (trim_trailing_idle data threshold))
   \<and> (length data < 10 \<longrightarrow> trim_trailing_idle data threshold = data)"
  by (simp add: trim_trailing_idle_def detect_active_frames_def Let_def)

theorem trim_length_bounds_witness:
  "10 \<le> length (replicate 12 [(0 :: real, 0 :: real, 0 :: real)])
   \<and> 10 \<le> length (trim_trailing_idle (replicate 12 [(0, 0, 0)]) STOP_THRESHOLD)
   \<and> length [[(0 :: real, 0 :: real, 0 :: real)]] < 10
   \<and> trim_trailing_idle [[(0, 0, 0)]] STOP_THRESHOLD = [[(0, 0, 0)]]"
  using trim_length_bounds [of "replicate 12 [(0, 0, 0)]" STOP_THRESHOLD]
    trim_length_bounds [of "[[(0, 0, 0)]]" STOP_THRESHOLD]
  by simp

lemma scan_back_found:
  "1 \<le> j \<Longrightarrow> j \<le> k \<Longrightarrow> float_gt (energy ! j) threshold
   \<Longrightarrow> (\<forall>i. j < i \<and> i \<le> k \<longrightarrow> \<not> float_gt (energy ! i) threshold)
   \<Longrightarrow> scan_back energy threshold real_end k = j + 2"
proof (induction k)
  case 0
  then show ?case by simp
next
  case (Suc k)
  show ?case
  proof (cases "j = Suc k")
    case True
    with Suc.prems show ?thesis by simp
  next
    case False
    with Suc.prems have "j \<le> k" "\<not> float_gt (energy ! Suc k) threshold" by auto
    with Suc show ?thesis by simp
  qed
qed

lemma motion_energy_nth:
  assumes "Suc i < length data"
  shows "motion_energy data ! i =
    np_mean (map2 (\<lambda>p q. joint_norm (joint_sub p q)) (data ! Suc i) (data ! i))"
proof -
  from assms have "i < length (zip (tl data) (butlast data))" by simp
  then show ?thesis
    using assms by (simp add: motion_energy_def nth_tl nth_butlast)
qed

text \<open>
  Claim C5. For every trajectory of 100 frames whose motion energy exceeds the threshold at
  index 40 (the movement from frame 40 to frame 41) and does not exceed it at any later
  index, \<open>detect_active_frames\<close> returns 42 and the trimmed trajectory has exactly 42
  frames.
\<close>

theorem trim_100_frames_active_until_40:
  assumes "length data = 100"
    and "float_gt (motion_energy data ! 40) threshold"
    and "\<forall>i. 40 < i \<and> i < 99 \<longrightarrow> \<not> float_gt (motion_energy data ! i) threshold"
  shows "detect_active_frames data threshold = 42
    \<and> length (trim_trailing_idle data threshold) = 42"
proof -
  have "scan_back (motion_energy data) threshold 100 98 = 40 + 2"
    using assms(2,3) by (intro scan_back_found) auto
  with assms(1) have "detect_active_frames data threshold = 42"
    by (simp add: detect_active_frames_def)
  with assms(1) show ?thesis by (simp add: trim_trailing_idle_def)
qed

lemma walk_energy:
  assumes "i < 99"
  shows "motion_energy walk_then_rest ! i = Some (if i < 41 then 1 else 0)"
proof -
  from assms have "Suc i < length walk_then_rest" by (simp add: walk_then_rest_def)
  from motion_energy_nth [OF this] assms show ?thesis
    by (simp add: walk_then_rest_def np_mean_def min_def del: upt_Suc)
qed

theorem trim_100_frames_active_until_40_witness:
  "length walk_then_rest = 100
   \<and> float_gt (motion_energy walk_then_rest ! 40) STOP_THRESHOLD
   \<and> detect_active_frames walk_then_rest STOP_THRESHOLD = 42
   \<and> length (trim_trailing_idle walk_then_rest STOP_THRESHOLD) = 42"
proof -
  have l: "length walk_then_rest = 100" by (simp add: walk_then_rest_def)
  have a: "float_gt (motion_energy walk_then_rest ! 40) STOP_THRESHOLD"
    by (simp add: walk_energy STOP_THRESHOLD_def)
  have b: "\<forall>i. 40 < i \<and> i < 99 \<longrightarrow> \<not> float_gt (motion_energy walk_then_rest ! i) STOP_THRESHOLD"
    by (simp add: walk_energy STOP_THRESHOLD_def)
  from trim_100_frames_active_until_40 [OF l a b] l a show ?thesis by simp
qed

section \<open>Properties of the batch driver\<close>

















section \<open>Properties of the orientation corrector\<close>

lemma rotate_back:
  fixes x z c s :: real
  assumes "c * c + s * s = 1"
  shows "(x * c - z * s) * c + (x * s + z * c) * s = x"
    and "(x * s + z * c) * c - (x * c - z * s) * s = z"
proof -
  have "(x * c - z * s) * c + (x * s + z * c) * s = x * (c * c + s * s)"
    by (simp add: algebra_simps)
  with assms show "(x * c - z * s) * c + (x * s + z * c) * s = x" by simp
  have "(x * s + z * c) * c - (x * c - z * s) * s = z * (c * c + s * s)"
    by (simp add: algebra_simps)
  with assms show "(x * s + z * c) * c - (x * c - z * s) * s = z" by simp
qed

lemma cos_sin_unit: "cos (r :: real) * cos r + sin r * sin r = 1"
  using sin_cos_squared_add2 [of r] by (simp add: power2_eq_square)

text \<open>
  Claim C8. Rotating a trajectory about the vertical axis by an angle and then by the opposite
  angle gives back the original joint coordinates, for every trajectory and every angle.
  (Over the reals the coordinates come back exactly, hence within any tolerance.)
\<close>

theorem rotate_yaw_inverse:
  "process_motion_data (- a) (process_motion_data a data) = data"
proof (cases "a = 0")
  case True
  then show ?thesis by (simp add: process_motion_data_def)
next
  case False
  have r: "radians (- a) = - radians a" by (simp add: radians_def)
  have "map (map ((\<lambda>(x, y, z). (x * cos (radians a) - z * (- sin (radians a)), y,
                      x * (- sin (radians a)) + z * cos (radians a)))
               \<circ> (\<lambda>(x, y, z). (x * cos (radians a) - z * sin (radians a), y,
                      x * sin (radians a) + z * cos (radians a))))) data = map (map id) data"
    by (intro map_cong refl) (auto simp: rotate_back [OF cos_sin_unit])
  with False show ?thesis
    by (simp add: process_motion_data_def r Let_def)
qed

end
